theory Spec2Isabelle
  imports Complex_Main "HOL-Library.Word"
begin

section \<open>The framework as the repository sees it\<close>

text \<open>
  The repository consists of three physics-list classes (\<open>EMPhysics\<close>, \<open>TherapyPhysics\<close>,
  \<open>MyQGSP_BERT\<close>) and one Boost.Python module. Every statement of every function body is a
  call into the Geant4 framework, whose code is not part of the repository. The model therefore
  records the framework calls a body makes, in order, with their arguments; what the framework
  does on such a call is left open.

  \<open>G4int\<close> is the framework's name for \<open>int\<close>, a 32-bit machine integer. \<open>G4double\<close> is
  \<open>double\<close>; the only arithmetic on it is the single product \<open>0.5*MeV\<close>, which is kept as a
  product of real numbers with the unit \<open>MeV\<close> of \<open>G4SystemOfUnits.hh\<close> as a parameter.
\<close>

type_synonym G4int = "32 word"
type_synonym G4double = real

text \<open>The framework physics lists the classes derive from.\<close>

datatype physics_list_base = QGSP_BIC | QGSP_BERT | G4VModularPhysicsList

text \<open>The framework physics constructors the classes instantiate.\<close>

datatype physics_constructor = G4EmStandardPhysics | G4StepLimiterPhysics | G4NeutronTrackingCut

text \<open>Objects made by \<open>new\<close> are named by their address.\<close>

type_synonym ptr = nat

text \<open>What is streamed into \<open>G4cout\<close> by one statement.\<close>

datatype out_item = Str string | G4endl

text \<open>
  One framework call. \<open>Base_ctor b args\<close> is the base-class constructor call of a
  mem-initialiser (\<open>args = []\<close> when the base is default-constructed); \<open>New p k v\<close> is
  \<open>new k(v)\<close> returning address \<open>p\<close>; \<open>Base_SetCuts b\<close> is the qualified call \<open>b::SetCuts()\<close>.
\<close>

datatype call =
    Base_ctor physics_list_base "G4int list"
  | G4cout "out_item list"
  | SetVerboseLevel G4int
  | New ptr physics_constructor G4int
  | SetKineticEnergyLimit ptr G4double
  | RegisterPhysics ptr
  | Base_SetCuts physics_list_base

text \<open>The state threaded through a body: the next free address and the calls made so far.\<close>

record world =
  next_ptr :: ptr
  calls :: "call list"

definition emit :: "call \<Rightarrow> world \<Rightarrow> world" where
  "emit c w = w\<lparr>calls := calls w @ [c]\<rparr>"

definition new_obj :: "physics_constructor \<Rightarrow> G4int \<Rightarrow> world \<Rightarrow> ptr \<times> world" where
  "new_obj k v w =
     (next_ptr w, emit (New (next_ptr w) k v) (w\<lparr>next_ptr := Suc (next_ptr w)\<rparr>))"

section \<open>The function bodies\<close>

text \<open>\<open>EMPhysics::EMPhysics(G4int ver)\<close>, EMPhysics.cc lines 10-20. There is no
  mem-initialiser, so the base \<open>G4VModularPhysicsList\<close> is default-constructed.\<close>

definition EMPhysics_ctor :: "G4int \<Rightarrow> world \<Rightarrow> world" where
  "EMPhysics_ctor ver w0 =
     (let w1 = emit (Base_ctor G4VModularPhysicsList []) w0;
          w2 = emit (G4cout [Str ''<<< Geant4 Physics List simulation engine: EMPhysics'', G4endl]) w1;
          w3 = emit (G4cout [G4endl]) w2;
          w4 = emit (SetVerboseLevel ver) w3;
          (p, w5) = new_obj G4EmStandardPhysics ver w4
      in emit (RegisterPhysics p) w5)"

text \<open>\<open>TherapyPhysics::TherapyPhysics(G4int verbose) : QGSP_BIC(verbose)\<close>,
  TherapyPhysics.cc lines 25-29.\<close>

definition TherapyPhysics_ctor :: "G4int \<Rightarrow> world \<Rightarrow> world" where
  "TherapyPhysics_ctor verbose w0 =
     (let w1 = emit (Base_ctor QGSP_BIC [verbose]) w0;
          w2 = emit (G4cout [Str ''###Adding step limiter physics to the list...'', G4endl, G4endl]) w1;
          (p, w3) = new_obj G4StepLimiterPhysics verbose w2
      in emit (RegisterPhysics p) w3)"

text \<open>\<open>TherapyPhysics::~TherapyPhysics()\<close>, TherapyPhysics.cc lines 31-33: an empty body.\<close>

definition TherapyPhysics_dtor :: "world \<Rightarrow> world" where
  "TherapyPhysics_dtor w = w"

text \<open>\<open>TherapyPhysics::SetCuts()\<close>, TherapyPhysics.cc lines 35-38.\<close>

definition TherapyPhysics_SetCuts :: "world \<Rightarrow> world" where
  "TherapyPhysics_SetCuts w = emit (Base_SetCuts QGSP_BIC) w"

text \<open>\<open>MyQGSP_BERT::MyQGSP_BERT(G4int verbose) : QGSP_BERT(verbose)\<close>,
  MyQGSP_BERT.cc lines 20-30. The unit \<open>MeV\<close> is a parameter.\<close>

definition MyQGSP_BERT_ctor :: "G4double \<Rightarrow> G4int \<Rightarrow> world \<Rightarrow> world" where
  "MyQGSP_BERT_ctor MeV verbose w0 =
     (let w1 = emit (Base_ctor QGSP_BERT [verbose]) w0;
          (neuCut, w2) = new_obj G4NeutronTrackingCut verbose w1;
          w3 = emit (SetKineticEnergyLimit neuCut (0.5 * MeV)) w2;
          w4 = emit (RegisterPhysics neuCut) w3;
          w5 = emit (G4cout [Str ''###Changing the neutron cuts of the physicslist...'', G4endl, G4endl]) w4;
          (p, w6) = new_obj G4StepLimiterPhysics verbose w5;
          w7 = emit (RegisterPhysics p) w6
      in emit (G4cout [Str ''###Adding step limiter physics to the Geant4 simulation engine...'',
                       G4endl, G4endl]) w7)"

text \<open>\<open>MyQGSP_BERT::~MyQGSP_BERT()\<close>, MyQGSP_BERT.cc lines 33-35: an empty body.\<close>

definition MyQGSP_BERT_dtor :: "world \<Rightarrow> world" where
  "MyQGSP_BERT_dtor w = w"

text \<open>\<open>MyQGSP_BERT::SetCuts()\<close>, MyQGSP_BERT.cc lines 37-40.\<close>

definition MyQGSP_BERT_SetCuts :: "world \<Rightarrow> world" where
  "MyQGSP_BERT_SetCuts w = emit (Base_SetCuts QGSP_BERT) w"

section \<open>The function bodies when framework calls may throw\<close>

text \<open>
  Any framework call may throw, and the framework decides which: \<open>throws made c\<close> says
  whether the call \<open>c\<close> throws after the calls \<open>made\<close>. A body either returns, or a call
  throws and the exception leaves the body, since no body has a \<open>try\<close> block; the calls
  after the throwing one are not made.
\<close>

datatype 'a outcome = Returned 'a world | Threw call world

type_synonym thrower = "call list \<Rightarrow> call \<Rightarrow> bool"

text \<open>A framework call that returns nothing.\<close>

definition framework_call :: "thrower \<Rightarrow> call \<Rightarrow> world \<Rightarrow> unit outcome" where
  "framework_call throws c w =
     (if throws (calls w) c then Threw c (emit c w) else Returned () (emit c w))"

text \<open>A \<open>new\<close> expression: the constructor of the object may throw.\<close>

definition framework_new ::
  "thrower \<Rightarrow> physics_constructor \<Rightarrow> G4int \<Rightarrow> world \<Rightarrow> ptr outcome" where
  "framework_new throws k v w =
     (if throws (calls w) (New (next_ptr w) k v)
      then Threw (New (next_ptr w) k v) (snd (new_obj k v w))
      else Returned (fst (new_obj k v w)) (snd (new_obj k v w)))"

text \<open>The next statement runs only when the one before has returned.\<close>

fun and_then :: "'a outcome \<Rightarrow> ('a \<Rightarrow> world \<Rightarrow> 'b outcome) \<Rightarrow> 'b outcome" where
  "and_then (Returned a w) f = f a w"
| "and_then (Threw c w) f = Threw c w"

text \<open>EMPhysics.cc lines 10-20.\<close>

definition EMPhysics_ctor_x :: "thrower \<Rightarrow> G4int \<Rightarrow> world \<Rightarrow> unit outcome" where
  "EMPhysics_ctor_x throws ver w0 =
     and_then (framework_call throws (Base_ctor G4VModularPhysicsList []) w0) (\<lambda>_ w1.
     and_then (framework_call throws
                 (G4cout [Str ''<<< Geant4 Physics List simulation engine: EMPhysics'', G4endl]) w1) (\<lambda>_ w2.
     and_then (framework_call throws (G4cout [G4endl]) w2) (\<lambda>_ w3.
     and_then (framework_call throws (SetVerboseLevel ver) w3) (\<lambda>_ w4.
     and_then (framework_new throws G4EmStandardPhysics ver w4) (\<lambda>p w5.
     framework_call throws (RegisterPhysics p) w5)))))"

text \<open>TherapyPhysics.cc lines 25-29 and 35-38.\<close>

definition TherapyPhysics_ctor_x :: "thrower \<Rightarrow> G4int \<Rightarrow> world \<Rightarrow> unit outcome" where
  "TherapyPhysics_ctor_x throws verbose w0 =
     and_then (framework_call throws (Base_ctor QGSP_BIC [verbose]) w0) (\<lambda>_ w1.
     and_then (framework_call throws
                 (G4cout [Str ''###Adding step limiter physics to the list...'', G4endl, G4endl]) w1) (\<lambda>_ w2.
     and_then (framework_new throws G4StepLimiterPhysics verbose w2) (\<lambda>p w3.
     framework_call throws (RegisterPhysics p) w3)))"

definition TherapyPhysics_SetCuts_x :: "thrower \<Rightarrow> world \<Rightarrow> unit outcome" where
  "TherapyPhysics_SetCuts_x throws w = framework_call throws (Base_SetCuts QGSP_BIC) w"

text \<open>MyQGSP_BERT.cc lines 20-30 and 37-40.\<close>

definition MyQGSP_BERT_ctor_x :: "thrower \<Rightarrow> G4double \<Rightarrow> G4int \<Rightarrow> world \<Rightarrow> unit outcome" where
  "MyQGSP_BERT_ctor_x throws MeV verbose w0 =
     and_then (framework_call throws (Base_ctor QGSP_BERT [verbose]) w0) (\<lambda>_ w1.
     and_then (framework_new throws G4NeutronTrackingCut verbose w1) (\<lambda>neuCut w2.
     and_then (framework_call throws (SetKineticEnergyLimit neuCut (0.5 * MeV)) w2) (\<lambda>_ w3.
     and_then (framework_call throws (RegisterPhysics neuCut) w3) (\<lambda>_ w4.
     and_then (framework_call throws
                 (G4cout [Str ''###Changing the neutron cuts of the physicslist...'', G4endl, G4endl]) w4) (\<lambda>_ w5.
     and_then (framework_new throws G4StepLimiterPhysics verbose w5) (\<lambda>p w6.
     and_then (framework_call throws (RegisterPhysics p) w6) (\<lambda>_ w7.
     framework_call throws
       (G4cout [Str ''###Adding step limiter physics to the Geant4 simulation engine...'',
                G4endl, G4endl]) w7)))))))"

definition MyQGSP_BERT_SetCuts_x :: "thrower \<Rightarrow> world \<Rightarrow> unit outcome" where
  "MyQGSP_BERT_SetCuts_x throws w = framework_call throws (Base_SetCuts QGSP_BERT) w"

text \<open>The framework in which no call throws.\<close>

definition never :: thrower where
  "never made c = False"

section \<open>Observing a body\<close>

text \<open>The calls a body makes when started in \<open>w\<close>: what it appended to the log.\<close>

definition performed :: "(world \<Rightarrow> world) \<Rightarrow> world \<Rightarrow> call list" where
  "performed f w = drop (length (calls w)) (calls (f w))"

text \<open>The class and verbosity argument of the object that \<open>new\<close> returned at address
  \<open>p\<close>, if any.\<close>

fun created :: "call list \<Rightarrow> ptr \<Rightarrow> (physics_constructor \<times> G4int) option" where
  "created [] p = None"
| "created (New q k v # cs) p = (if q = p then Some (k, v) else created cs p)"
| "created (c # cs) p = created cs p"

text \<open>The addresses handed to \<open>RegisterPhysics\<close>, in order.\<close>

fun registered_ptrs :: "call list \<Rightarrow> ptr list" where
  "registered_ptrs [] = []"
| "registered_ptrs (RegisterPhysics p # cs) = p # registered_ptrs cs"
| "registered_ptrs (c # cs) = registered_ptrs cs"

text \<open>The objects handed to \<open>RegisterPhysics\<close>, in order, each with the class and the
  verbosity argument it was made with.\<close>

definition registered :: "call list \<Rightarrow> (physics_constructor \<times> G4int) option list" where
  "registered cs = map (created cs) (registered_ptrs cs)"

text \<open>The \<open>G4int\<close> arguments a call carries.\<close>

fun verbosity_args :: "call \<Rightarrow> G4int list" where
  "verbosity_args (Base_ctor b args) = args"
| "verbosity_args (SetVerboseLevel v) = [v]"
| "verbosity_args (New p k v) = [v]"
| "verbosity_args c = []"

text \<open>The kinetic-energy limits set, in order: the object and the value.\<close>

fun kinetic_limits :: "call list \<Rightarrow> (ptr \<times> G4double) list" where
  "kinetic_limits [] = []"
| "kinetic_limits (SetKineticEnergyLimit p x # cs) = (p, x) # kinetic_limits cs"
| "kinetic_limits (c # cs) = kinetic_limits cs"

text \<open>The calls before the first registration of \<open>p\<close>, and the calls from it on.\<close>

definition before_registration :: "ptr \<Rightarrow> call list \<Rightarrow> call list" where
  "before_registration p cs = takeWhile (\<lambda>c. c \<noteq> RegisterPhysics p) cs"

definition from_registration :: "ptr \<Rightarrow> call list \<Rightarrow> call list" where
  "from_registration p cs = dropWhile (\<lambda>c. c \<noteq> RegisterPhysics p) cs"

text \<open>
  The calls made and the exception that left the body, if any, when the calls of the list
  are made one after the other and the first one that throws ends the run.
\<close>

fun straight_line :: "thrower \<Rightarrow> call list \<Rightarrow> call list \<Rightarrow> call list \<times> call option" where
  "straight_line throws made [] = (made, None)"
| "straight_line throws made (c # cs) =
     (if throws made c then (made @ [c], Some c) else straight_line throws (made @ [c]) cs)"

text \<open>What is seen of an outcome: the calls made and the exception that left the body.\<close>

fun observe :: "'a outcome \<Rightarrow> call list \<times> call option" where
  "observe (Returned a w) = (calls w, None)"
| "observe (Threw c w) = (calls w, Some c)"

section \<open>The class declarations\<close>

text \<open>
  What a class body of the three headers can contain: a constructor taking a \<open>G4int\<close>, with
  its default argument if it has one; a virtual destructor, either \<open>= default\<close> or declared
  and defined in the source file; a \<open>virtual void\<close> member function with no parameters; a copy constructor or copy assignment operator declared \<open>= delete\<close>; a
  data member.
\<close>

datatype dtor_kind = Defaulted | Declared

datatype member =
    Ctor "G4int option"
  | Dtor dtor_kind
  | Method string
  | Copy_ctor_deleted
  | Copy_assign_deleted
  | Data_member string

record class_decl =
  cname :: string
  cbase :: physics_list_base
  public_part :: "member list"
  private_part :: "member list"

datatype repo_class = EMPhysics | TherapyPhysics | MyQGSP_BERT

text \<open>EMPhysics.hh lines 45-53, TherapyPhysics.hh lines 14-28, MyQGSP_BERT.hh lines 67-81.\<close>

fun decl :: "repo_class \<Rightarrow> class_decl" where
  "decl EMPhysics =
     \<lparr>cname = ''EMPhysics'', cbase = G4VModularPhysicsList,
      public_part = [Ctor (Some 1), Dtor Defaulted, Copy_ctor_deleted, Copy_assign_deleted],
      private_part = []\<rparr>"
| "decl TherapyPhysics =
     \<lparr>cname = ''TherapyPhysics'', cbase = QGSP_BIC,
      public_part = [Ctor (Some 1), Dtor Declared, Method ''SetCuts''],
      private_part = []\<rparr>"
| "decl MyQGSP_BERT =
     \<lparr>cname = ''MyQGSP_BERT'', cbase = QGSP_BERT,
      public_part = [Ctor (Some 1), Dtor Declared, Method ''SetCuts''],
      private_part = []\<rparr>"

definition members :: "class_decl \<Rightarrow> member list" where
  "members d = public_part d @ private_part d"

definition declares_method :: "class_decl \<Rightarrow> string \<Rightarrow> bool" where
  "declares_method d n = (Method n \<in> set (members d))"

fun data_members :: "member list \<Rightarrow> string list" where
  "data_members [] = []"
| "data_members (Data_member n # ms) = n # data_members ms"
| "data_members (m # ms) = data_members ms"

fun ctor_defaults :: "member list \<Rightarrow> G4int option list" where
  "ctor_defaults [] = []"
| "ctor_defaults (Ctor d # ms) = d # ctor_defaults ms"
| "ctor_defaults (m # ms) = ctor_defaults ms"





text \<open>The constructor body of each class.\<close>

fun ctor_body :: "G4double \<Rightarrow> repo_class \<Rightarrow> G4int \<Rightarrow> world \<Rightarrow> world" where
  "ctor_body MeV EMPhysics = EMPhysics_ctor"
| "ctor_body MeV TherapyPhysics = TherapyPhysics_ctor"
| "ctor_body MeV MyQGSP_BERT = MyQGSP_BERT_ctor MeV"

text \<open>
  A constructor call with or without an argument. Without one the default argument of the
  declaration is passed; a call without an argument to a constructor that has no default is
  ill-formed (\<open>None\<close>).
\<close>

definition construct :: "G4double \<Rightarrow> repo_class \<Rightarrow> G4int option \<Rightarrow> world \<Rightarrow> world option" where
  "construct MeV c arg w =
     (case arg of
        Some v \<Rightarrow> Some (ctor_body MeV c v w)
      | None \<Rightarrow>
          (case ctor_defaults (public_part (decl c)) of
             [Some d] \<Rightarrow> Some (ctor_body MeV c d w)
           | _ \<Rightarrow> None))"

text \<open>The \<open>SetCuts\<close> definition each class gives, if it gives one. The sources define
  \<open>TherapyPhysics::SetCuts\<close> and \<open>MyQGSP_BERT::SetCuts\<close> and no \<open>EMPhysics::SetCuts\<close>.\<close>

fun SetCuts_override :: "repo_class \<Rightarrow> (world \<Rightarrow> world) option" where
  "SetCuts_override EMPhysics = None"
| "SetCuts_override TherapyPhysics = Some TherapyPhysics_SetCuts"
| "SetCuts_override MyQGSP_BERT = Some MyQGSP_BERT_SetCuts"

text \<open>A call of the virtual function \<open>SetCuts\<close> on an object of class \<open>c\<close>: the class's own
  definition runs if it has one, the inherited one otherwise.\<close>

definition call_SetCuts :: "repo_class \<Rightarrow> world \<Rightarrow> world" where
  "call_SetCuts c w =
     (case SetCuts_override c of
        Some body \<Rightarrow> body w
      | None \<Rightarrow> emit (Base_SetCuts (cbase (decl c))) w)"

text \<open>Every function body the repository defines, at verbosity \<open>v\<close>.\<close>

definition operations :: "G4double \<Rightarrow> G4int \<Rightarrow> (world \<Rightarrow> world) list" where
  "operations MeV v =
     [EMPhysics_ctor v,
      TherapyPhysics_ctor v, TherapyPhysics_dtor, TherapyPhysics_SetCuts,
      MyQGSP_BERT_ctor MeV v, MyQGSP_BERT_dtor, MyQGSP_BERT_SetCuts]"

section \<open>The Python module\<close>

text \<open>
  One \<open>class_<T, T*, bases<B>, boost::noncopyable>(name, doc)\<close> statement of
  gMyPhysicsLists.cc: the wrapped class, the class the held pointer points to, the bases
  named, whether \<open>boost::noncopyable\<close> is given, the Python name, the doc string, and the
  names of the chained \<open>.def\<close> calls.
\<close>

record class_binding =
  wrapped :: repo_class
  held_ptr_to :: repo_class
  bases :: "physics_list_base list"
  noncopyable :: bool
  py_name :: string
  py_doc :: string
  defs :: "string list"

text \<open>\<open>BOOST_PYTHON_MODULE(libphyslist)\<close>, gMyPhysicsLists.cc lines 10-23.\<close>

definition libphyslist :: "class_binding list" where
  "libphyslist =
     [\<lparr>wrapped = MyQGSP_BERT, held_ptr_to = MyQGSP_BERT, bases = [QGSP_BERT],
       noncopyable = True, py_name = ''MyQGSP_BERT'',
       py_doc = ''physics list with steplimit support'', defs = []\<rparr>,
      \<lparr>wrapped = TherapyPhysics, held_ptr_to = TherapyPhysics, bases = [QGSP_BIC],
       noncopyable = True, py_name = ''TherapyPhysics'',
       py_doc = ''physics list for lower energies'', defs = []\<rparr>,
      \<lparr>wrapped = EMPhysics, held_ptr_to = EMPhysics, bases = [G4VModularPhysicsList],
       noncopyable = True, py_name = ''EMPhysics'',
       py_doc = ''physics list for lower energies'', defs = []\<rparr>]"

section \<open>The calls each body makes\<close>

lemma EMPhysics_ctor_calls:
  "calls (EMPhysics_ctor ver w) = calls w @
     [Base_ctor G4VModularPhysicsList [],
      G4cout [Str ''<<< Geant4 Physics List simulation engine: EMPhysics'', G4endl],
      G4cout [G4endl],
      SetVerboseLevel ver,
      New (next_ptr w) G4EmStandardPhysics ver,
      RegisterPhysics (next_ptr w)]"
  by (simp add: EMPhysics_ctor_def emit_def new_obj_def)

lemma TherapyPhysics_ctor_calls:
  "calls (TherapyPhysics_ctor verbose w) = calls w @
     [Base_ctor QGSP_BIC [verbose],
      G4cout [Str ''###Adding step limiter physics to the list...'', G4endl, G4endl],
      New (next_ptr w) G4StepLimiterPhysics verbose,
      RegisterPhysics (next_ptr w)]"
  by (simp add: TherapyPhysics_ctor_def emit_def new_obj_def)

lemma MyQGSP_BERT_ctor_calls:
  "calls (MyQGSP_BERT_ctor MeV verbose w) = calls w @
     [Base_ctor QGSP_BERT [verbose],
      New (next_ptr w) G4NeutronTrackingCut verbose,
      SetKineticEnergyLimit (next_ptr w) (0.5 * MeV),
      RegisterPhysics (next_ptr w),
      G4cout [Str ''###Changing the neutron cuts of the physicslist...'', G4endl, G4endl],
      New (Suc (next_ptr w)) G4StepLimiterPhysics verbose,
      RegisterPhysics (Suc (next_ptr w)),
      G4cout [Str ''###Adding step limiter physics to the Geant4 simulation engine...'',
              G4endl, G4endl]]"
  by (simp add: MyQGSP_BERT_ctor_def emit_def new_obj_def)

lemma EMPhysics_ctor_performed:
  "performed (EMPhysics_ctor ver) w =
     [Base_ctor G4VModularPhysicsList [],
      G4cout [Str ''<<< Geant4 Physics List simulation engine: EMPhysics'', G4endl],
      G4cout [G4endl],
      SetVerboseLevel ver,
      New (next_ptr w) G4EmStandardPhysics ver,
      RegisterPhysics (next_ptr w)]"
  by (simp add: performed_def EMPhysics_ctor_calls)

lemma TherapyPhysics_ctor_performed:
  "performed (TherapyPhysics_ctor verbose) w =
     [Base_ctor QGSP_BIC [verbose],
      G4cout [Str ''###Adding step limiter physics to the list...'', G4endl, G4endl],
      New (next_ptr w) G4StepLimiterPhysics verbose,
      RegisterPhysics (next_ptr w)]"
  by (simp add: performed_def TherapyPhysics_ctor_calls)

lemma MyQGSP_BERT_ctor_performed:
  "performed (MyQGSP_BERT_ctor MeV verbose) w =
     [Base_ctor QGSP_BERT [verbose],
      New (next_ptr w) G4NeutronTrackingCut verbose,
      SetKineticEnergyLimit (next_ptr w) (0.5 * MeV),
      RegisterPhysics (next_ptr w),
      G4cout [Str ''###Changing the neutron cuts of the physicslist...'', G4endl, G4endl],
      New (Suc (next_ptr w)) G4StepLimiterPhysics verbose,
      RegisterPhysics (Suc (next_ptr w)),
      G4cout [Str ''###Adding step limiter physics to the Geant4 simulation engine...'',
              G4endl, G4endl]]"
  by (simp add: performed_def MyQGSP_BERT_ctor_calls)

lemma TherapyPhysics_dtor_performed:
  "performed TherapyPhysics_dtor w = []"
  by (simp add: performed_def TherapyPhysics_dtor_def)

lemma MyQGSP_BERT_dtor_performed:
  "performed MyQGSP_BERT_dtor w = []"
  by (simp add: performed_def MyQGSP_BERT_dtor_def)

lemma TherapyPhysics_SetCuts_performed:
  "performed TherapyPhysics_SetCuts w = [Base_SetCuts QGSP_BIC]"
  by (simp add: performed_def TherapyPhysics_SetCuts_def emit_def)

lemma MyQGSP_BERT_SetCuts_performed:
  "performed MyQGSP_BERT_SetCuts w = [Base_SetCuts QGSP_BERT]"
  by (simp add: performed_def MyQGSP_BERT_SetCuts_def emit_def)

section \<open>The bodies when framework calls may throw\<close>

lemma EMPhysics_ctor_x_straight:
  "observe (EMPhysics_ctor_x throws v w)
     = straight_line throws (calls w) (performed (EMPhysics_ctor v) w)"
  by (simp add: EMPhysics_ctor_x_def EMPhysics_ctor_performed framework_call_def
      framework_new_def new_obj_def emit_def)

lemma TherapyPhysics_ctor_x_straight:
  "observe (TherapyPhysics_ctor_x throws v w)
     = straight_line throws (calls w) (performed (TherapyPhysics_ctor v) w)"
  by (simp add: TherapyPhysics_ctor_x_def TherapyPhysics_ctor_performed framework_call_def
      framework_new_def new_obj_def emit_def)

lemma MyQGSP_BERT_ctor_x_straight:
  "observe (MyQGSP_BERT_ctor_x throws MeV v w)
     = straight_line throws (calls w) (performed (MyQGSP_BERT_ctor MeV v) w)"
  by (simp add: MyQGSP_BERT_ctor_x_def MyQGSP_BERT_ctor_performed framework_call_def
      framework_new_def new_obj_def emit_def)

lemma SetCuts_x_straight:
  "observe (TherapyPhysics_SetCuts_x throws w)
     = straight_line throws (calls w) (performed TherapyPhysics_SetCuts w)"
  "observe (MyQGSP_BERT_SetCuts_x throws w)
     = straight_line throws (calls w) (performed MyQGSP_BERT_SetCuts w)"
  by (simp_all add: TherapyPhysics_SetCuts_x_def MyQGSP_BERT_SetCuts_x_def
      TherapyPhysics_SetCuts_performed MyQGSP_BERT_SetCuts_performed framework_call_def emit_def)

lemma x_never:
  "EMPhysics_ctor_x never v w = Returned () (EMPhysics_ctor v w)"
  "TherapyPhysics_ctor_x never v w = Returned () (TherapyPhysics_ctor v w)"
  "MyQGSP_BERT_ctor_x never MeV v w = Returned () (MyQGSP_BERT_ctor MeV v w)"
  "TherapyPhysics_SetCuts_x never w = Returned () (TherapyPhysics_SetCuts w)"
  "MyQGSP_BERT_SetCuts_x never w = Returned () (MyQGSP_BERT_SetCuts w)"
  by (simp_all add: EMPhysics_ctor_x_def TherapyPhysics_ctor_x_def MyQGSP_BERT_ctor_x_def
      TherapyPhysics_SetCuts_x_def MyQGSP_BERT_SetCuts_x_def
      EMPhysics_ctor_def TherapyPhysics_ctor_def MyQGSP_BERT_ctor_def
      TherapyPhysics_SetCuts_def MyQGSP_BERT_SetCuts_def
      framework_call_def framework_new_def never_def new_obj_def emit_def Let_def)

section \<open>Registration and verbosity\<close>

text \<open>
  Claim C1. For every verbosity and from every starting state, the \<open>EMPhysics\<close> constructor
  hands exactly one object to \<open>RegisterPhysics\<close>, a \<open>G4EmStandardPhysics\<close>; the
  \<open>TherapyPhysics\<close> constructor constructs its \<open>QGSP_BIC\<close> base first and hands exactly one
  object to \<open>RegisterPhysics\<close>, a \<open>G4StepLimiterPhysics\<close>; the \<open>MyQGSP_BERT\<close> constructor
  constructs its \<open>QGSP_BERT\<close> base first and hands exactly two objects to \<open>RegisterPhysics\<close>,
  a \<open>G4NeutronTrackingCut\<close> and then a \<open>G4StepLimiterPhysics\<close>.
\<close>

theorem C1_registers_fixed_set:
  "map (map_option fst) (registered (performed (EMPhysics_ctor v) w))
       = [Some G4EmStandardPhysics]
   \<and> hd (performed (TherapyPhysics_ctor v) w) = Base_ctor QGSP_BIC [v]
   \<and> map (map_option fst) (registered (performed (TherapyPhysics_ctor v) w))
       = [Some G4StepLimiterPhysics]
   \<and> hd (performed (MyQGSP_BERT_ctor MeV v) w) = Base_ctor QGSP_BERT [v]
   \<and> map (map_option fst) (registered (performed (MyQGSP_BERT_ctor MeV v) w))
       = [Some G4NeutronTrackingCut, Some G4StepLimiterPhysics]"
  by (simp add: EMPhysics_ctor_performed TherapyPhysics_ctor_performed
      MyQGSP_BERT_ctor_performed registered_def)

text \<open>
  Claim C7. For every verbosity \<open>v\<close>, each constructor passes \<open>v\<close> itself on: the
  \<open>EMPhysics\<close> constructor calls \<open>SetVerboseLevel v\<close>, the other two construct their base
  with the single argument \<open>v\<close>; every object handed to \<open>RegisterPhysics\<close> was made by
  \<open>new\<close> with the argument \<open>v\<close>; and no framework call of a constructor carries a
  \<open>G4int\<close> other than \<open>v\<close>.
\<close>

theorem C7_verbosity_forwarded:
  "SetVerboseLevel v \<in> set (performed (EMPhysics_ctor v) w)
   \<and> map (map_option snd) (registered (performed (EMPhysics_ctor v) w)) = [Some v]
   \<and> concat (map verbosity_args (performed (EMPhysics_ctor v) w)) = [v, v]
   \<and> Base_ctor QGSP_BIC [v] \<in> set (performed (TherapyPhysics_ctor v) w)
   \<and> map (map_option snd) (registered (performed (TherapyPhysics_ctor v) w)) = [Some v]
   \<and> concat (map verbosity_args (performed (TherapyPhysics_ctor v) w)) = [v, v]
   \<and> Base_ctor QGSP_BERT [v] \<in> set (performed (MyQGSP_BERT_ctor MeV v) w)
   \<and> map (map_option snd) (registered (performed (MyQGSP_BERT_ctor MeV v) w)) = [Some v, Some v]
   \<and> concat (map verbosity_args (performed (MyQGSP_BERT_ctor MeV v) w)) = [v, v, v]"
  by (simp add: EMPhysics_ctor_performed TherapyPhysics_ctor_performed
      MyQGSP_BERT_ctor_performed registered_def)

section \<open>The neutron tracking cut\<close>

text \<open>
  Claim C3. In the \<open>MyQGSP_BERT\<close> constructor the object made by
  \<open>new G4NeutronTrackingCut\<close> is handed to \<open>RegisterPhysics\<close>, its kinetic-energy limit is
  set among the calls before that registration, and no kinetic-energy limit is set from the
  registration on.
\<close>

theorem C3_limit_before_registration:
  "created (performed (MyQGSP_BERT_ctor MeV v) w) (next_ptr w) = Some (G4NeutronTrackingCut, v)
   \<and> kinetic_limits (before_registration (next_ptr w) (performed (MyQGSP_BERT_ctor MeV v) w))
       = [(next_ptr w, 0.5 * MeV)]
   \<and> RegisterPhysics (next_ptr w) \<in> set (performed (MyQGSP_BERT_ctor MeV v) w)
   \<and> kinetic_limits (from_registration (next_ptr w) (performed (MyQGSP_BERT_ctor MeV v) w)) = []"
  by (simp add: MyQGSP_BERT_ctor_performed before_registration_def from_registration_def)

text \<open>
  Claim C8. For every verbosity, the \<open>MyQGSP_BERT\<close> constructor sets exactly one
  kinetic-energy limit, on the \<open>G4NeutronTrackingCut\<close> object it made, and the value is
  \<open>0.5\<close> times the unit \<open>MeV\<close>.
\<close>

theorem C8_neutron_limit:
  "kinetic_limits (performed (MyQGSP_BERT_ctor MeV v) w) = [(next_ptr w, 0.5 * MeV)]
   \<and> created (performed (MyQGSP_BERT_ctor MeV v) w) (next_ptr w) = Some (G4NeutronTrackingCut, v)"
  by (simp add: MyQGSP_BERT_ctor_performed)

section \<open>The cut-setting hook\<close>

text \<open>
  Claim C2, as stated, says that every class of the repository overrides \<open>SetCuts\<close>. The
  class \<open>EMPhysics\<close> does not: its declaration names no \<open>SetCuts\<close> and the sources define
  none.
\<close>

theorem C2_EMPhysics_no_SetCuts:
  "\<not> declares_method (decl EMPhysics) ''SetCuts'' \<and> SetCuts_override EMPhysics = None"
  by (simp add: declares_method_def members_def)

text \<open>
  Claim C2, amended. \<open>TherapyPhysics\<close> and \<open>MyQGSP_BERT\<close> each declare and define
  \<open>SetCuts\<close>, and the whole effect of either definition is one call of the \<open>SetCuts\<close> of
  the class's base. \<open>EMPhysics\<close> declares no \<open>SetCuts\<close>, so a \<open>SetCuts\<close> call on it runs
  the one inherited from \<open>G4VModularPhysicsList\<close>.
\<close>

theorem C2_SetCuts_delegates:
  "declares_method (decl TherapyPhysics) ''SetCuts''
   \<and> SetCuts_override TherapyPhysics = Some TherapyPhysics_SetCuts
   \<and> TherapyPhysics_SetCuts w = w\<lparr>calls := calls w @ [Base_SetCuts (cbase (decl TherapyPhysics))]\<rparr>
   \<and> declares_method (decl MyQGSP_BERT) ''SetCuts''
   \<and> SetCuts_override MyQGSP_BERT = Some MyQGSP_BERT_SetCuts
   \<and> MyQGSP_BERT_SetCuts w = w\<lparr>calls := calls w @ [Base_SetCuts (cbase (decl MyQGSP_BERT))]\<rparr>
   \<and> \<not> declares_method (decl EMPhysics) ''SetCuts''
   \<and> call_SetCuts EMPhysics w = w\<lparr>calls := calls w @ [Base_SetCuts (cbase (decl EMPhysics))]\<rparr>"
  by (simp add: declares_method_def members_def TherapyPhysics_SetCuts_def
      MyQGSP_BERT_SetCuts_def call_SetCuts_def emit_def)

section \<open>Straight-line bodies without state of their own\<close>

text \<open>
  Claim C6. For every verbosity and every starting state, each constructor and each
  \<open>SetCuts\<close> definition makes one fixed sequence of framework calls, in which the
  verbosity occurs only as an argument, and the two destructor bodies make none. When
  framework calls may throw, each body makes the calls of that same sequence in order up to
  the first one that throws, and that call's exception is what leaves the body; when none
  throws, the body returns the state of the sequence run to its end.
\<close>

theorem C6_straight_line:
  "performed (EMPhysics_ctor v) w =
     [Base_ctor G4VModularPhysicsList [],
      G4cout [Str ''<<< Geant4 Physics List simulation engine: EMPhysics'', G4endl],
      G4cout [G4endl],
      SetVerboseLevel v,
      New (next_ptr w) G4EmStandardPhysics v,
      RegisterPhysics (next_ptr w)]
   \<and> performed (TherapyPhysics_ctor v) w =
     [Base_ctor QGSP_BIC [v],
      G4cout [Str ''###Adding step limiter physics to the list...'', G4endl, G4endl],
      New (next_ptr w) G4StepLimiterPhysics v,
      RegisterPhysics (next_ptr w)]
   \<and> performed (MyQGSP_BERT_ctor MeV v) w =
     [Base_ctor QGSP_BERT [v],
      New (next_ptr w) G4NeutronTrackingCut v,
      SetKineticEnergyLimit (next_ptr w) (0.5 * MeV),
      RegisterPhysics (next_ptr w),
      G4cout [Str ''###Changing the neutron cuts of the physicslist...'', G4endl, G4endl],
      New (Suc (next_ptr w)) G4StepLimiterPhysics v,
      RegisterPhysics (Suc (next_ptr w)),
      G4cout [Str ''###Adding step limiter physics to the Geant4 simulation engine...'',
              G4endl, G4endl]]
   \<and> performed TherapyPhysics_SetCuts w = [Base_SetCuts QGSP_BIC]
   \<and> performed MyQGSP_BERT_SetCuts w = [Base_SetCuts QGSP_BERT]
   \<and> performed TherapyPhysics_dtor w = []
   \<and> performed MyQGSP_BERT_dtor w = []
   \<and> observe (EMPhysics_ctor_x throws v w)
       = straight_line throws (calls w) (performed (EMPhysics_ctor v) w)
   \<and> observe (TherapyPhysics_ctor_x throws v w)
       = straight_line throws (calls w) (performed (TherapyPhysics_ctor v) w)
   \<and> observe (MyQGSP_BERT_ctor_x throws MeV v w)
       = straight_line throws (calls w) (performed (MyQGSP_BERT_ctor MeV v) w)
   \<and> observe (TherapyPhysics_SetCuts_x throws w)
       = straight_line throws (calls w) (performed TherapyPhysics_SetCuts w)
   \<and> observe (MyQGSP_BERT_SetCuts_x throws w)
       = straight_line throws (calls w) (performed MyQGSP_BERT_SetCuts w)
   \<and> EMPhysics_ctor_x never v w = Returned () (EMPhysics_ctor v w)
   \<and> TherapyPhysics_ctor_x never v w = Returned () (TherapyPhysics_ctor v w)
   \<and> MyQGSP_BERT_ctor_x never MeV v w = Returned () (MyQGSP_BERT_ctor MeV v w)
   \<and> TherapyPhysics_SetCuts_x never w = Returned () (TherapyPhysics_SetCuts w)
   \<and> MyQGSP_BERT_SetCuts_x never w = Returned () (MyQGSP_BERT_SetCuts w)"
  by (intro conjI)
    (rule EMPhysics_ctor_performed TherapyPhysics_ctor_performed MyQGSP_BERT_ctor_performed
      TherapyPhysics_SetCuts_performed MyQGSP_BERT_SetCuts_performed
      TherapyPhysics_dtor_performed MyQGSP_BERT_dtor_performed
      EMPhysics_ctor_x_straight TherapyPhysics_ctor_x_straight MyQGSP_BERT_ctor_x_straight
      SetCuts_x_straight x_never)+

text \<open>
  Claim C5. No class of the repository declares a data member, in its public or its private
  part; and what a function body of the repository does is to append framework calls to
  those already made, the appended calls not depending on the earlier ones.
\<close>

theorem C5_no_data_members:
  "data_members (members (decl c)) = []
   \<and> map (\<lambda>f. calls (f w)) (operations MeV v)
       = map (\<lambda>f. calls w @ performed f \<lparr>next_ptr = next_ptr w, calls = []\<rparr>) (operations MeV v)"
  by (cases c) (simp_all add: members_def operations_def EMPhysics_ctor_calls TherapyPhysics_ctor_calls
      MyQGSP_BERT_ctor_calls EMPhysics_ctor_performed TherapyPhysics_ctor_performed
      MyQGSP_BERT_ctor_performed TherapyPhysics_SetCuts_performed MyQGSP_BERT_SetCuts_performed
      TherapyPhysics_dtor_performed MyQGSP_BERT_dtor_performed
      TherapyPhysics_SetCuts_def MyQGSP_BERT_SetCuts_def
      TherapyPhysics_dtor_def MyQGSP_BERT_dtor_def emit_def)

section \<open>Default arguments\<close>

text \<open>
  Claim C9. Each class declares one constructor, with the default argument \<open>1\<close>;
  constructing an object without an argument is well-formed and gives the same result as
  constructing it with verbosity \<open>1\<close>.
\<close>

theorem C9_default_verbosity:
  "ctor_defaults (public_part (decl c)) = [Some 1]
   \<and> construct MeV c None w = construct MeV c (Some 1) w
   \<and> construct MeV c None w = Some (ctor_body MeV c 1 w)"
  by (cases c) (simp_all add: construct_def)

section \<open>What the Python module exposes\<close>

text \<open>
  Claim C4. The module \<open>libphyslist\<close> wraps exactly three classes, under the names
  \<open>MyQGSP_BERT\<close>, \<open>TherapyPhysics\<close> and \<open>EMPhysics\<close>, with the bases \<open>QGSP_BERT\<close>,
  \<open>QGSP_BIC\<close> and \<open>G4VModularPhysicsList\<close>; each name and base is the one of the class
  declaration; and no member function is added to any of them with \<open>.def\<close>.
\<close>

theorem C4_module_classes:
  "map (\<lambda>b. (py_name b, bases b)) libphyslist
     = [(''MyQGSP_BERT'', [QGSP_BERT]), (''TherapyPhysics'', [QGSP_BIC]),
        (''EMPhysics'', [G4VModularPhysicsList])]
   \<and> map (\<lambda>b. (py_name b, bases b)) libphyslist
     = map (\<lambda>b. (cname (decl (wrapped b)), [cbase (decl (wrapped b))])) libphyslist
   \<and> concat (map defs libphyslist) = []"
  by (simp add: libphyslist_def)



end
